theory Spec2Isabelle
  imports Main "HOL-Library.AList"
begin

section \<open>Python values and exceptions\<close>

text \<open>
  The sensor (\<^verbatim>\<open>OpenSkySensor.py\<close>) works on decoded JSON: the payload of the
  OpenSky service, the settings dictionary \<^verbatim>\<open>props\<close> and the cached record list.
  A decoded JSON value is a \<open>pyval\<close>; a dictionary keeps its keys in insertion order
  (an association list with distinct keys).  A string is the list of its code points;
  a \<open>char\<close> holds a code point below 256, so the model covers Latin-1 text.  Every exception the code can raise is a
  constructor of \<open>exn\<close>; a function that can raise returns \<open>exn + 'a\<close>, with
  \<open>Inl\<close> for the exception that leaves it.  The calls of \<^verbatim>\<open>logging\<close> change no
  result and no state of the sensor and are left out.
\<close>

datatype exn =
    KeyError | ValueError | TypeError | IndexError | NameError | OverflowError
  | HTTPError | Timeout | ConnectionError | OtherException

text \<open>
  A Python \<^verbatim>\<open>float\<close> is an IEEE 754 binary64 number.  \<open>Finite s m e\<close> is
  \<open>(-1)^s * m * 2^e\<close> (\<open>s\<close> set for a negative sign, so both zeros exist); the
  operations below compare and round by value, so a number may be written with any
  mantissa and exponent that give its value.
\<close>

datatype pyfloat = Finite bool nat int | Infinite bool | NaN

datatype pyval =
    PNone | PBool bool | PInt int | PFloat pyfloat | PStr string
  | PList "pyval list" | PDict "(string \<times> pyval) list"

definition try_bind :: "exn + 'a \<Rightarrow> ('a \<Rightarrow> exn + 'b) \<Rightarrow> exn + 'b" where
  "try_bind r f = (case r of Inl e \<Rightarrow> Inl e | Inr x \<Rightarrow> f x)"

section \<open>binary64 arithmetic\<close>

text \<open>\<^verbatim>\<open>int.bit_length\<close>: the number of binary digits of \<open>n\<close>.\<close>

fun bit_length :: "nat \<Rightarrow> nat" where
  "bit_length n = (if n = 0 then 0 else Suc (bit_length (n div 2)))"

declare bit_length.simps [simp del]

text \<open>The quotient \<open>n / d\<close> rounded to the nearest natural number, a tie to the even one.\<close>

definition round_half_even :: "nat \<Rightarrow> nat \<Rightarrow> nat" where
  "round_half_even n d =
     (let q = n div d; r = n mod d
      in if d < 2 * r \<or> (2 * r = d \<and> odd q) then q + 1 else q)"

text \<open>\<open>\<lfloor>log\<^sub>2 (n / d)\<rfloor>\<close> for positive \<open>n\<close> and \<open>d\<close>.\<close>

definition ilog2_ratio :: "nat \<Rightarrow> nat \<Rightarrow> int" where
  "ilog2_ratio n d =
     (let a = int (bit_length n) - int (bit_length d)
      in if (if 0 \<le> a then d * 2 ^ nat a \<le> n else d \<le> n * 2 ^ nat (- a)) then a else a - 1)"

text \<open>
  Rounding to nearest, ties to even, of the exact value \<open>n / d\<close> with sign \<open>s\<close>: the
  mantissa has 53 bits, the least exponent is \<open>-1074\<close> (subnormal numbers), and a
  result of \<open>2^1024\<close> or more is an infinity.
\<close>

definition round_ratio :: "bool \<Rightarrow> nat \<Rightarrow> nat \<Rightarrow> pyfloat" where
  "round_ratio s n d =
     (if n = 0 then Finite s 0 0
      else
        let et = max (ilog2_ratio n d - 52) (- 1074);
            m = (if 0 \<le> et then round_half_even n (d * 2 ^ nat et)
                 else round_half_even (n * 2 ^ nat (- et)) d)
        in if 1024 < int (bit_length m) + et then Infinite s else Finite s m et)"

text \<open>The exact value \<open>n * 2^x\<close>, rounded.\<close>

definition round_dyadic :: "bool \<Rightarrow> nat \<Rightarrow> int \<Rightarrow> pyfloat" where
  "round_dyadic s n x =
     (if 0 \<le> x then round_ratio s (n * 2 ^ nat x) 1 else round_ratio s n (2 ^ nat (- x)))"

text \<open>A float literal of the source, \<^verbatim>\<open>3.281\<close> being \<open>float_literal 3281 1000\<close>.\<close>

definition float_literal :: "nat \<Rightarrow> nat \<Rightarrow> pyfloat" where
  "float_literal n d = round_ratio False n d"

text \<open>
  An integer as a \<open>Finite\<close> of the same value, without rounding: used to compare an
  \<^verbatim>\<open>int\<close> with a \<^verbatim>\<open>float\<close>, which Python does exactly.
\<close>

definition exact_int :: "int \<Rightarrow> pyfloat" where
  "exact_int i = Finite (i < 0) (nat \<bar>i\<bar>) 0"

text \<open>
  \<^verbatim>\<open>float(i)\<close> as the arithmetic operators apply it to an \<^verbatim>\<open>int\<close> operand:
  correctly rounded, \<^verbatim>\<open>OverflowError\<close> when the integer is too large.
\<close>

definition float_of_int :: "int \<Rightarrow> exn + pyfloat" where
  "float_of_int i =
     (case round_ratio (i < 0) (nat \<bar>i\<bar>) 1 of
        Infinite _ \<Rightarrow> Inl OverflowError
      | f \<Rightarrow> Inr f)"

definition signed :: "bool \<Rightarrow> nat \<Rightarrow> int" where
  "signed s m = (if s then - int m else int m)"

fun fmul :: "pyfloat \<Rightarrow> pyfloat \<Rightarrow> pyfloat" where
  "fmul (Finite s1 m1 e1) (Finite s2 m2 e2) = round_dyadic (s1 \<noteq> s2) (m1 * m2) (e1 + e2)"
| "fmul (Finite s1 m1 e1) (Infinite s2) = (if m1 = 0 then NaN else Infinite (s1 \<noteq> s2))"
| "fmul (Infinite s1) (Finite s2 m2 e2) = (if m2 = 0 then NaN else Infinite (s1 \<noteq> s2))"
| "fmul (Infinite s1) (Infinite s2) = Infinite (s1 \<noteq> s2)"
| "fmul NaN _ = NaN"
| "fmul _ NaN = NaN"

fun fsub :: "pyfloat \<Rightarrow> pyfloat \<Rightarrow> pyfloat" where
  "fsub (Finite s1 m1 e1) (Finite s2 m2 e2) =
     (let e = min e1 e2;
          d = signed s1 m1 * 2 ^ nat (e1 - e) - signed s2 m2 * 2 ^ nat (e2 - e)
      in if d = 0 then Finite (s1 \<and> \<not> s2) 0 0 else round_dyadic (d < 0) (nat \<bar>d\<bar>) e)"
| "fsub (Finite s1 m1 e1) (Infinite s2) = Infinite (\<not> s2)"
| "fsub (Infinite s1) (Finite s2 m2 e2) = Infinite s1"
| "fsub (Infinite s1) (Infinite s2) = (if s1 = s2 then NaN else Infinite s1)"
| "fsub NaN _ = NaN"
| "fsub _ NaN = NaN"

text \<open>Comparison by value; a NaN is unordered with everything.\<close>

datatype cmp = Less | Equal | Greater | Unordered

definition cmp_int :: "int \<Rightarrow> int \<Rightarrow> cmp" where
  "cmp_int a b = (if a < b then Less else if a = b then Equal else Greater)"

fun fcompare :: "pyfloat \<Rightarrow> pyfloat \<Rightarrow> cmp" where
  "fcompare (Finite s1 m1 e1) (Finite s2 m2 e2) =
     (let e = min e1 e2
      in cmp_int (signed s1 m1 * 2 ^ nat (e1 - e)) (signed s2 m2 * 2 ^ nat (e2 - e)))"
| "fcompare (Finite s1 m1 e1) (Infinite s2) = (if s2 then Greater else Less)"
| "fcompare (Infinite s1) (Finite s2 m2 e2) = (if s1 then Less else Greater)"
| "fcompare (Infinite s1) (Infinite s2) =
     (if s1 = s2 then Equal else if s1 then Less else Greater)"
| "fcompare NaN _ = Unordered"
| "fcompare _ NaN = Unordered"

section \<open>Numbers, comparison and subscripts of Python values\<close>

text \<open>A \<^verbatim>\<open>bool\<close> is an \<^verbatim>\<open>int\<close> in arithmetic and comparison.\<close>

fun num_view :: "pyval \<Rightarrow> pyfloat option" where
  "num_view (PBool b) = Some (exact_int (if b then 1 else 0))"
| "num_view (PInt i) = Some (exact_int i)"
| "num_view (PFloat f) = Some f"
| "num_view _ = None"

text \<open>
  \<^verbatim>\<open>x < i\<close>, \<^verbatim>\<open>x <= i\<close> and \<^verbatim>\<open>x > i\<close> for an \<^verbatim>\<open>int\<close> \<open>i\<close>, which is all the
  sensor compares with: anything but a number raises \<^verbatim>\<open>TypeError\<close>.
\<close>

definition compare_int :: "pyval \<Rightarrow> int \<Rightarrow> exn + cmp" where
  "compare_int x i =
     (case num_view x of None \<Rightarrow> Inl TypeError | Some a \<Rightarrow> Inr (fcompare a (exact_int i)))"

text \<open>\<^verbatim>\<open>d - x\<close> for an \<^verbatim>\<open>int\<close> \<open>d\<close>.\<close>

definition int_minus :: "int \<Rightarrow> pyval \<Rightarrow> exn + pyval" where
  "int_minus d x =
     (case x of
        PBool b \<Rightarrow> Inr (PInt (d - (if b then 1 else 0)))
      | PInt i \<Rightarrow> Inr (PInt (d - i))
      | PFloat f \<Rightarrow> try_bind (float_of_int d) (\<lambda>a. Inr (PFloat (fsub a f)))
      | _ \<Rightarrow> Inl TypeError)"

text \<open>\<^verbatim>\<open>x * c\<close> for a \<^verbatim>\<open>float\<close> \<open>c\<close>.\<close>

definition times_float :: "pyval \<Rightarrow> pyfloat \<Rightarrow> exn + pyfloat" where
  "times_float x c =
     (case x of
        PBool b \<Rightarrow> try_bind (float_of_int (if b then 1 else 0)) (\<lambda>a. Inr (fmul a c))
      | PInt i \<Rightarrow> try_bind (float_of_int i) (\<lambda>a. Inr (fmul a c))
      | PFloat f \<Rightarrow> Inr (fmul f c)
      | _ \<Rightarrow> Inl TypeError)"

text \<open>
  \<^verbatim>\<open>x == y\<close>: numbers by value across \<^verbatim>\<open>bool\<close>, \<^verbatim>\<open>int\<close> and \<^verbatim>\<open>float\<close>,
  lists element by element, dictionaries key by key.  (Python first tests the elements of
  a container for identity, which only shows for a NaN inside a container.)
\<close>

fun py_eq :: "pyval \<Rightarrow> pyval \<Rightarrow> bool"
  and py_eq_list :: "pyval list \<Rightarrow> pyval list \<Rightarrow> bool"
  and py_eq_items :: "(string \<times> pyval) list \<Rightarrow> (string \<times> pyval) list \<Rightarrow> bool" where
  "py_eq (PList xs) (PList ys) = py_eq_list xs ys"
| "py_eq (PDict a) (PDict b) = (length a = length b \<and> py_eq_items a b)"
| "py_eq (PStr s) (PStr t) = (s = t)"
| "py_eq PNone PNone = True"
| "py_eq x y =
     (case (num_view x, num_view y) of
        (Some a, Some b) \<Rightarrow> fcompare a b = Equal
      | _ \<Rightarrow> False)"
| "py_eq_list [] [] = True"
| "py_eq_list (x # xs) (y # ys) = (py_eq x y \<and> py_eq_list xs ys)"
| "py_eq_list _ _ = False"
| "py_eq_items [] b = True"
| "py_eq_items ((key, v) # a) b =
     ((case map_of b key of None \<Rightarrow> False | Some w \<Rightarrow> py_eq v w) \<and> py_eq_items a b)"

text \<open>\<^verbatim>\<open>x[key]\<close> with a \<^verbatim>\<open>str\<close> key.\<close>

definition getitem_key :: "pyval \<Rightarrow> string \<Rightarrow> exn + pyval" where
  "getitem_key x key =
     (case x of
        PDict kvs \<Rightarrow> (case map_of kvs key of None \<Rightarrow> Inl KeyError | Some v \<Rightarrow> Inr v)
      | _ \<Rightarrow> Inl TypeError)"

text \<open>
  \<^verbatim>\<open>x[i]\<close> with a literal index \<open>i \<ge> 0\<close>: past the end of a list or a string is
  \<^verbatim>\<open>IndexError\<close>, and a decoded JSON object has no \<^verbatim>\<open>int\<close> key.
\<close>

definition getitem_index :: "pyval \<Rightarrow> nat \<Rightarrow> exn + pyval" where
  "getitem_index x i =
     (case x of
        PList xs \<Rightarrow> if i < length xs then Inr (xs ! i) else Inl IndexError
      | PStr s \<Rightarrow> if i < length s then Inr (PStr [s ! i]) else Inl IndexError
      | PDict kvs \<Rightarrow> Inl KeyError
      | _ \<Rightarrow> Inl TypeError)"

text \<open>
  \<^verbatim>\<open>for v in x\<close>: the elements of a list, the characters of a string, the keys of a
  dictionary.
\<close>

definition py_iter :: "pyval \<Rightarrow> exn + pyval list" where
  "py_iter x =
     (case x of
        PList xs \<Rightarrow> Inr xs
      | PStr s \<Rightarrow> Inr (map (\<lambda>c. PStr [c]) s)
      | PDict kvs \<Rightarrow> Inr (map (\<lambda>kv. PStr (fst kv)) kvs)
      | _ \<Rightarrow> Inl TypeError)"

section \<open>Strings and formatting\<close>

definition digit_char :: "nat \<Rightarrow> char" where
  "digit_char d = ''0123456789'' ! d"

fun digits :: "nat \<Rightarrow> string" where
  "digits n = (if n < 10 then [digit_char n] else digits (n div 10) @ [digit_char (n mod 10)])"

declare digits.simps [simp del]

definition str_int :: "int \<Rightarrow> string" where
  "str_int i = (if i < 0 then CHR ''-'' # digits (nat (- i)) else digits (nat i))"

text \<open>
  \<^verbatim>\<open>'{:.2f}'.format(x)\<close> (and \<^verbatim>\<open>'{:0.2f}'\<close>, which asks for no width): the exact
  value of the float rounded to hundredths, a tie to the even digit, the sign kept even
  when the digits are all zero.
\<close>

definition fixed2 :: "bool \<Rightarrow> nat \<Rightarrow> string" where
  "fixed2 s h =
     (if s then ''-'' else '''') @ digits (h div 100) @ ''.'' @
     [digit_char (h mod 100 div 10), digit_char (h mod 10)]"

fun format_2f :: "pyfloat \<Rightarrow> string" where
  "format_2f (Finite s m e) =
     fixed2 s (if 0 \<le> e then m * 100 * 2 ^ nat e
               else round_half_even (m * 100) (2 ^ nat (- e)))"
| "format_2f (Infinite s) = (if s then ''-inf'' else ''inf'')"
| "format_2f NaN = ''nan''"

text \<open>\<^verbatim>\<open>str.upper\<close> on an ASCII character.\<close>

definition upper_char :: "char \<Rightarrow> char" where
  "upper_char c =
     (case map_of (zip ''abcdefghijklmnopqrstuvwxyz'' ''ABCDEFGHIJKLMNOPQRSTUVWXYZ'') c of
        None \<Rightarrow> c | Some u \<Rightarrow> u)"

text \<open>
  \<^verbatim>\<open>int(s)\<close> for the keys of \<open>TRACK_LIST\<close>, which are strings of decimal digits;
  the signs, blanks and underscores that \<^verbatim>\<open>int\<close> also reads do not occur there.
\<close>

definition digit_of :: "char \<Rightarrow> nat option" where
  "digit_of c = map_of (zip ''0123456789'' [0, 1, 2, 3, 4, 5, 6, 7, 8, 9]) c"

fun digits_value :: "string \<Rightarrow> nat \<Rightarrow> nat option" where
  "digits_value [] acc = Some acc"
| "digits_value (c # cs) acc =
     (case digit_of c of None \<Rightarrow> None | Some d \<Rightarrow> digits_value cs (10 * acc + d))"

definition int_of_str :: "string \<Rightarrow> exn + int" where
  "int_of_str s =
     (if s = [] then Inl ValueError
      else case digits_value s 0 of None \<Rightarrow> Inl ValueError | Some n \<Rightarrow> Inr (int n))"

section \<open>The sensor's constants\<close>

definition CONV_ALT :: pyfloat where
  "CONV_ALT = float_literal 3281 1000"

definition CONV_SPD :: pyfloat where
  "CONV_SPD = float_literal 2237 1000"

definition TRACK_LIST :: "(string \<times> string) list" where
  "TRACK_LIST =
     [(''0'', ''North''), (''45'', ''NorthEast''), (''90'', ''East''), (''135'', ''SouthEast''),
      (''180'', ''South''), (''225'', ''SouthWest''), (''270'', ''West''), (''315'', ''NorthWest'')]"

text \<open>
  The handlers of \<^verbatim>\<open>get_trackdir\<close> and \<^verbatim>\<open>_create_content\<close> are both
  \<^verbatim>\<open>except (KeyError, ValueError, TypeError)\<close>.
\<close>

definition caught :: "exn \<Rightarrow> bool" where
  "caught e = (e = KeyError \<or> e = ValueError \<or> e = TypeError)"

section \<open>\<^verbatim>\<open>get_trackdir\<close>\<close>

text \<open>
  The static methods read the module's global \<^verbatim>\<open>sensor\<close>, which only the
  \<^verbatim>\<open>__main__\<close> block binds (to the one \<^verbatim>\<open>OpenSkySensor\<close> instance).  The global
  is the parameter \<open>sensor\<close>: \<open>None\<close> while the name is unbound, so that reading it raises
  \<^verbatim>\<open>NameError\<close>, and \<open>Some props\<close> with the instance's settings otherwise.

  \<^verbatim>\<open>f_track is "null"\<close> tests identity, not equality: it holds for the object of
  the literal itself (CPython interns it) and for no other string, whatever its text.
  The argument of \<open>get_trackdir\<close> is therefore either that object, \<open>NullLiteral\<close>, or
  any other object, \<open>Obj v\<close>, given by its value; a string decoded from JSON is never
  the literal's object.
\<close>

datatype pyarg = NullLiteral | Obj pyval

text \<open>
  One round of the loop over \<open>TRACK_LIST\<close>; the assignment to \<^verbatim>\<open>true_tract\<close>
  in the \<^verbatim>\<open>else\<close> branch sets a variable that is never read.
\<close>

definition track_step :: "pyval \<Rightarrow> string \<Rightarrow> string \<times> string \<Rightarrow> exn + string" where
  "track_step f_track true_track item =
     try_bind (int_of_str (fst item)) (\<lambda>d.
     try_bind (int_minus d f_track) (\<lambda>diff.
     try_bind (compare_int diff 1) (\<lambda>c1.
       let t1 = (if c1 = Less \<or> c1 = Equal then snd item else true_track)
       in try_bind (compare_int f_track d) (\<lambda>c2.
            if c2 = Less then
              try_bind (int_minus d f_track) (\<lambda>diff2.
              try_bind (compare_int diff2 45) (\<lambda>c3.
                Inr (if c3 = Less then snd item else t1)))
            else Inr t1))))"

fun track_loop :: "pyval \<Rightarrow> (string \<times> string) list \<Rightarrow> string \<Rightarrow> exn + string" where
  "track_loop f_track [] true_track = Inr true_track"
| "track_loop f_track (item # items) true_track =
     (case track_step f_track true_track item of
        Inl e \<Rightarrow> Inl e
      | Inr t \<Rightarrow> track_loop f_track items t)"

definition get_trackdir :: "(string \<rightharpoonup> pyval) option \<Rightarrow> pyarg \<Rightarrow> exn + pyval" where
  "get_trackdir sensor f_track =
     (case f_track of
        NullLiteral \<Rightarrow> Inr PNone
      | Obj f \<Rightarrow>
          if f = PNone then Inr PNone
          else (case sensor of
                  None \<Rightarrow> Inl NameError
                | Some props \<Rightarrow>
                    (case track_loop f TRACK_LIST '''' of
                       Inr t \<Rightarrow> Inr (PStr t)
                     | Inl e \<Rightarrow> if caught e then Inr (PList []) else Inl e)))"

section \<open>\<^verbatim>\<open>get_typeofaircraft\<close>\<close>

text \<open>
  The reference table \<^verbatim>\<open>Aircrafts.json\<close> is a list of entries with three string
  fields; the file is read on every call and is a parameter here.
\<close>

record aircraft_code =
  icao24 :: string
  manufacturer :: string
  model :: string

text \<open>
  The inner loop over the table: the pair (\<^verbatim>\<open>aircraft_mfc\<close>, \<^verbatim>\<open>aircraft_mod\<close>) is
  set to the default at every entry that does not match, and the loop breaks at the
  first entry that does.  \<^verbatim>\<open>ft_dict['icao24']\<close> is read at every comparison.
\<close>

fun scan_codes ::
  "aircraft_code list \<Rightarrow> (string \<times> pyval) list \<Rightarrow> string \<times> string \<Rightarrow> exn + string \<times> string" where
  "scan_codes [] ft_dict found = Inr found"
| "scan_codes (c # cs) ft_dict found =
     (case map_of ft_dict ''icao24'' of
        None \<Rightarrow> Inl KeyError
      | Some ident \<Rightarrow>
          if py_eq (PStr (icao24 c)) ident then Inr (manufacturer c, model c)
          else scan_codes cs ft_dict (''Unidentified'', ''Unknown''))"

text \<open>The outer loop runs once for every key of \<^verbatim>\<open>ft_dict\<close>.\<close>

fun type_loop ::
  "nat \<Rightarrow> aircraft_code list \<Rightarrow> (string \<times> pyval) list \<Rightarrow> string \<times> string \<Rightarrow>
   (string \<times> string) list \<Rightarrow> exn + (string \<times> string) list" where
  "type_loop 0 codes ft_dict found f_type = Inr f_type"
| "type_loop (Suc n) codes ft_dict found f_type =
     (case scan_codes codes ft_dict found of
        Inl e \<Rightarrow> Inl e
      | Inr found' \<Rightarrow>
          type_loop n codes ft_dict found'
            (AList.update ''Model'' (snd found')
              (AList.update ''Manufacturer'' (fst found') f_type)))"

definition get_typeofaircraft ::
  "aircraft_code list \<Rightarrow> (string \<times> pyval) list \<Rightarrow> exn + (string \<times> string) list" where
  "get_typeofaircraft codes ft_dict = type_loop (length ft_dict) codes ft_dict ('''', '''') []"

section \<open>\<^verbatim>\<open>_create_content\<close>\<close>

text \<open>
  What the sensor takes from its surroundings: the standard library's rendering of an
  epoch as local time (\<^verbatim>\<open>datetime.fromtimestamp(t, timezone.utc).astimezone()\<close>,
  printed with \<^verbatim>\<open>strftime('%Y-%m-%d %I:%M:%S %p')\<close>, or the exception that
  \<^verbatim>\<open>fromtimestamp\<close> raises), \<^verbatim>\<open>str\<close> of a float or of a non-empty container,
  \<^verbatim>\<open>str.upper\<close> of a text with characters beyond ASCII (whose upper case Unicode
  defines, not always as one character), the path \<^verbatim>\<open>os.path.join(os.path.dirname(__file__), 'images', name)\<close>, the
  reference table, and whether the module runs as \<^verbatim>\<open>__main__\<close>.
\<close>

record environment =
  local_time :: "pyval \<Rightarrow> exn + string"
  repr_of :: "pyval \<Rightarrow> string"
  str_upper :: "string \<Rightarrow> string"
  image_path :: "string \<Rightarrow> string"
  aircrafts :: "aircraft_code list"
  run_as_main :: bool

text \<open>A formatted record: the dictionary \<^verbatim>\<open>f_out\<close> with its keys \<^verbatim>\<open>'k'\<close>,
  \<^verbatim>\<open>'date & time'\<close>, \<^verbatim>\<open>'caption'\<close>, \<^verbatim>\<open>'summary'\<close> and \<^verbatim>\<open>'img'\<close>.\<close>

record flight_record =
  key :: pyval
  date_time :: string
  caption :: string
  summary :: string
  img :: string

text \<open>\<^verbatim>\<open>'{}'.format(v)\<close>, which is \<^verbatim>\<open>str(v)\<close>.\<close>

definition py_str :: "environment \<Rightarrow> pyval \<Rightarrow> string" where
  "py_str env v =
     (case v of
        PNone \<Rightarrow> ''None''
      | PBool b \<Rightarrow> (if b then ''True'' else ''False'')
      | PInt i \<Rightarrow> str_int i
      | PStr s \<Rightarrow> s
      | PList xs \<Rightarrow> (if xs = [] then ''[]'' else repr_of env v)
      | _ \<Rightarrow> repr_of env v)"

text \<open>\<^verbatim>\<open>s.upper()\<close>: on ASCII text the letters a to z change, nothing else does.\<close>

definition upper :: "environment \<Rightarrow> string \<Rightarrow> string" where
  "upper env s =
     (if list_all (\<lambda>c. \<not> digit7 c) s then map upper_char s else str_upper env s)"

definition dict_get :: "(string \<times> 'a) list \<Rightarrow> string \<Rightarrow> exn + 'a" where
  "dict_get d name = (case map_of d name of None \<Rightarrow> Inl KeyError | Some v \<Rightarrow> Inr v)"

text \<open>Reading an attribute of the global \<^verbatim>\<open>sensor\<close>.\<close>

definition sensor_global :: "(string \<rightharpoonup> pyval) option \<Rightarrow> exn + (string \<rightharpoonup> pyval)" where
  "sensor_global sensor = (case sensor of None \<Rightarrow> Inl NameError | Some props \<Rightarrow> Inr props)"

text \<open>\<^verbatim>\<open>os.path.join(..., 'images', sensor.props['background_img'])\<close>.\<close>

definition background_image ::
  "environment \<Rightarrow> (string \<rightharpoonup> pyval) option \<Rightarrow> exn + string" where
  "background_image env sensor =
     try_bind (sensor_global sensor) (\<lambda>props.
       case props ''background_img'' of
         None \<Rightarrow> Inl KeyError
       | Some (PStr name) \<Rightarrow> Inr (image_path env name)
       | Some _ \<Rightarrow> Inl TypeError)"

definition summary_text ::
  "environment \<Rightarrow> pyval \<Rightarrow> pyval \<Rightarrow> pyfloat \<Rightarrow> pyfloat \<Rightarrow> string \<Rightarrow> pyfloat \<Rightarrow> string" where
  "summary_text env track dir alt_ft spd_mph vert_Pos rate_ft =
     ''It'' @ [CHR 0x27] @ ''s cruising towards '' @ py_str env track @ '' degrees, ('' @
     py_str env dir @ '') at '' @ format_2f alt_ft @ '' ft. altitude with speed of '' @
     format_2f spd_mph @ '' mi/hr'' @
     ''. It'' @ [CHR 0x27] @ ''s currently '' @ vert_Pos @ '' at the rate of '' @
     format_2f rate_ft @ '' ft/s''"

text \<open>
  The body of the loop over the state vectors, in the order the source evaluates it.
  \<open>f_aircraft\<close> is the one dictionary that all rounds share (one key in the first
  round, three afterwards); its entry \<^verbatim>\<open>'Vectors'\<close> is the shared dictionary
  \<^verbatim>\<open>f_list\<close>, so it shows the new vector as soon as that is copied.
\<close>

definition vector_record ::
  "environment \<Rightarrow> (string \<rightharpoonup> pyval) option \<Rightarrow> string \<Rightarrow> (string \<times> pyval) list \<Rightarrow> pyval \<Rightarrow>
   exn + (string \<times> pyval) list \<times> flight_record" where
  "vector_record env sensor stamp f_aircraft v =
     try_bind (getitem_index v 0) (\<lambda>ident.
     try_bind (getitem_index v 1) (\<lambda>call_no.
     try_bind (getitem_index v 9) (\<lambda>speed.
     try_bind (getitem_index v 10) (\<lambda>track.
     try_bind (getitem_index v 11) (\<lambda>vert.
     try_bind (getitem_index v 13) (\<lambda>alt.
     try_bind (getitem_index v 5) (\<lambda>lon.
     try_bind (getitem_index v 6) (\<lambda>lat.
       let f_list = [(''Call no'', call_no), (''Speed'', speed), (''TrackDir'', track),
                     (''VertRate'', vert), (''GeoAlt'', alt), (''CurrLong'', lon),
                     (''CurrLat'', lat)];
           fa1 = AList.map_entry ''Vectors'' (\<lambda>_. PDict f_list)
                   (AList.update ''icao24'' ident f_aircraft)
       in
     try_bind (get_typeofaircraft (aircrafts env) fa1) (\<lambda>f_type.
       let fa2 = AList.update ''Type'' (PDict (map (\<lambda>kv. (fst kv, PStr (snd kv))) f_type))
                   (AList.update ''Vectors'' (PDict f_list) fa1)
       in
     try_bind (dict_get f_type ''Manufacturer'') (\<lambda>mfc.
     try_bind (dict_get f_type ''Model'') (\<lambda>mdl.
       let aircraft_info = ''Aircraft is Manufactured by '' @ upper env mfc @
                           '' with Model No: '' @ upper env mdl @ '' ''
       in
     try_bind (compare_int vert 0) (\<lambda>c.
       let vert_Pos = (if c = Greater then ''CLIMBING'' else ''DESCENDING'')
       in
     try_bind (get_trackdir sensor (Obj track)) (\<lambda>dir.
     try_bind (sensor_global sensor) (\<lambda>_.
     try_bind (times_float alt CONV_ALT) (\<lambda>alt_ft.
     try_bind (times_float speed CONV_SPD) (\<lambda>spd_mph.
     try_bind (times_float vert CONV_ALT) (\<lambda>rate_ft.
     try_bind (background_image env sensor) (\<lambda>path.
       Inr (fa2,
            \<lparr>key = ident,
             date_time = ''Vectors retrieved on '' @ stamp,
             caption = aircraft_info,
             summary = summary_text env track dir alt_ft spd_mph vert_Pos rate_ft,
             img = path\<rparr>)))))))))))))))))))"

fun create_loop ::
  "environment \<Rightarrow> (string \<rightharpoonup> pyval) option \<Rightarrow> string \<Rightarrow> (string \<times> pyval) list \<Rightarrow>
   pyval list \<Rightarrow> exn + flight_record list" where
  "create_loop env sensor stamp f_aircraft [] = Inr []"
| "create_loop env sensor stamp f_aircraft (v # vs) =
     (case vector_record env sensor stamp f_aircraft v of
        Inl e \<Rightarrow> Inl e
      | Inr (f_aircraft', r) \<Rightarrow>
          (case create_loop env sensor stamp f_aircraft' vs of
             Inl e \<Rightarrow> Inl e
           | Inr rs \<Rightarrow> Inr (r # rs)))"

text \<open>
  The result is \<open>None\<close> for Python's \<^verbatim>\<open>None\<close> and \<open>Some record\<close> for a list; an
  exception that the handler catches turns the whole result into the empty list, any
  other one leaves the function.
\<close>

definition create_content ::
  "environment \<Rightarrow> (string \<rightharpoonup> pyval) option \<Rightarrow> pyval \<Rightarrow> exn + flight_record list option" where
  "create_content env sensor fs_json =
     (case
        try_bind (getitem_key fs_json ''states'') (\<lambda>states.
          if py_eq states (PStr ''null'') \<or> states = PNone then Inr None
          else
            try_bind (getitem_key fs_json ''time'') (\<lambda>t.
            try_bind (local_time env t) (\<lambda>stamp.
            try_bind (py_iter states) (\<lambda>vs.
            try_bind (create_loop env sensor stamp [] vs) (\<lambda>record.
              Inr (Some record))))))
      of
        Inl e \<Rightarrow> if caught e then Inr (Some []) else Inl e
      | Inr content \<Rightarrow> Inr content)"

section \<open>The sensor: settings, cache and the public operations\<close>

text \<open>
  The state of the one sensor object: its settings \<^verbatim>\<open>props\<close>, the settings file
  and the buffer file that the base class \<^verbatim>\<open>SensorX\<close> keeps, and (for stating which
  calls reach the network) the number of \<^verbatim>\<open>requests.get\<close> calls so far.
\<close>

record sensor_state =
  props :: "string \<rightharpoonup> pyval"
  settings_file :: "string \<rightharpoonup> pyval"
  buffer :: "flight_record list option"
  requests_sent :: nat

text \<open>
  The outcome of \<^verbatim>\<open>requests.get\<close>: an exception, or a response with its status
  code and its body as \<^verbatim>\<open>response.json()\<close> decodes it (\<open>None\<close> when that raises
  \<^verbatim>\<open>ValueError\<close>).
\<close>

datatype http_result = Raises exn | Response int "pyval option"

text \<open>
  Modelled from the spec: \<^verbatim>\<open>SensorX._request_allowed\<close>, of the base class that is
  not among the sources.  A fetch is permitted when no prior fetch has occurred (no time
  of last use is recorded), or when the configured delta has elapsed since
  \<^verbatim>\<open>last_used\<close>.
\<close>

definition request_allowed :: "int \<Rightarrow> sensor_state \<Rightarrow> bool" where
  "request_allowed now s =
     (case props s ''last_used'' of
        Some (PInt t) \<Rightarrow>
          (case props s ''request_delta'' of
             Some (PInt delta) \<Rightarrow> delta \<le> now - t
           | _ \<Rightarrow> True)
      | _ \<Rightarrow> True)"

text \<open>
  Modelled from the spec: \<^verbatim>\<open>SensorX._save_settings\<close>, which writes the settings
  to their file.
\<close>

definition save_settings :: "sensor_state \<Rightarrow> sensor_state" where
  "save_settings s = s\<lparr>settings_file := props s\<rparr>"

text \<open>
  Modelled from the spec: \<^verbatim>\<open>SensorX._read_buffer\<close> and
  \<^verbatim>\<open>SensorX._write_buffer\<close>, which return the last records written to the cache
  and replace them.
\<close>

definition read_buffer :: "sensor_state \<Rightarrow> flight_record list option" where
  "read_buffer s = buffer s"

definition write_buffer :: "flight_record list option \<Rightarrow> sensor_state \<Rightarrow> sensor_state" where
  "write_buffer content s = s\<lparr>buffer := content\<rparr>"

text \<open>The handler of \<^verbatim>\<open>_fetch_data\<close>:
  \<^verbatim>\<open>except (HTTPError, Timeout, ConnectionError, ValueError)\<close>.\<close>

definition fetch_caught :: "exn \<Rightarrow> bool" where
  "fetch_caught e = (e = HTTPError \<or> e = Timeout \<or> e = ConnectionError \<or> e = ValueError)"

text \<open>
  \<^verbatim>\<open>_fetch_data\<close> at wall-clock second \<open>now\<close>, the network answering \<open>net\<close>.  The
  result pairs what the call returns or raises with the state it leaves.
  \<^verbatim>\<open>response.json\<close> is a bound method and never \<^verbatim>\<open>None\<close>, so the test is on the
  status code alone.  When the module runs as \<^verbatim>\<open>__main__\<close> the global
  \<^verbatim>\<open>sensor\<close> is this object.
\<close>

definition fetch_data ::
  "environment \<Rightarrow> int \<Rightarrow> http_result \<Rightarrow> sensor_state \<Rightarrow>
   (exn + flight_record list option) \<times> sensor_state" where
  "fetch_data env now net s =
     (case props s ''service_url'' of
        None \<Rightarrow> (Inl KeyError, s)
      | Some url \<Rightarrow>
          (let s0 = s\<lparr>requests_sent := Suc (requests_sent s)\<rparr>
           in case net of
                Raises e \<Rightarrow> (if fetch_caught e then Inr None else Inl e, s0)
              | Response status body \<Rightarrow>
                  (let s1 = save_settings (s0\<lparr>props := (props s0)(''last_used'' \<mapsto> PInt now)\<rparr>)
                   in if status = 200 then
                        (case body of
                           None \<Rightarrow> (Inr None, s1)
                         | Some fs_json \<Rightarrow>
                             (case create_content env
                                     (if run_as_main env then Some (props s1) else None) fs_json of
                                Inl e \<Rightarrow> (if fetch_caught e then Inr None else Inl e, s1)
                              | Inr content \<Rightarrow> (Inr content, write_buffer content s1)))
                      else (Inr None, s1))))"

definition get_all ::
  "environment \<Rightarrow> int \<Rightarrow> http_result \<Rightarrow> sensor_state \<Rightarrow>
   (exn + flight_record list option) \<times> sensor_state" where
  "get_all env now net s =
     (if request_allowed now s then fetch_data env now net s
      else (Inr (read_buffer s), s))"

text \<open>
  \<^verbatim>\<open>0 < len(content) and content[0]['k'] != k\<close>: \<^verbatim>\<open>len(None)\<close> raises
  \<^verbatim>\<open>TypeError\<close>, which neither caller handles.
\<close>

definition first_key_differs :: "flight_record list option \<Rightarrow> pyval \<Rightarrow> exn + bool" where
  "first_key_differs content k' =
     (case content of
        None \<Rightarrow> Inl TypeError
      | Some [] \<Rightarrow> Inr False
      | Some (r # rs) \<Rightarrow> Inr (\<not> py_eq (key r) k'))"

definition has_updates ::
  "environment \<Rightarrow> int \<Rightarrow> http_result \<Rightarrow> pyval \<Rightarrow> sensor_state \<Rightarrow> (exn + int) \<times> sensor_state" where
  "has_updates env now net k' s =
     (if request_allowed now s then
        (case fetch_data env now net s of
           (Inl e, s') \<Rightarrow> (Inl e, s')
         | (Inr content, s') \<Rightarrow>
             (case first_key_differs content k' of
                Inl e \<Rightarrow> (Inl e, s')
              | Inr True \<Rightarrow> (Inr 1, s')
              | Inr False \<Rightarrow> (Inr 0, s')))
      else (Inr 0, s))"

definition get_content ::
  "environment \<Rightarrow> int \<Rightarrow> http_result \<Rightarrow> pyval \<Rightarrow> sensor_state \<Rightarrow>
   (exn + flight_record list option) \<times> sensor_state" where
  "get_content env now net k' s =
     (case get_all env now net s of
        (Inl e, s') \<Rightarrow> (Inl e, s')
      | (Inr content, s') \<Rightarrow>
          (case first_key_differs content k' of
             Inl e \<Rightarrow> (Inl e, s')
           | Inr True \<Rightarrow> (Inr content, s')
           | Inr False \<Rightarrow> (Inr None, s')))"

section \<open>Well-formed payloads and example data\<close>

text \<open>
  A number that the arithmetic of the sensor accepts: a \<^verbatim>\<open>float\<close>, a \<^verbatim>\<open>bool\<close>, or
  an \<^verbatim>\<open>int\<close> that converts to \<^verbatim>\<open>float\<close> without overflow.
\<close>

definition is_number :: "pyval \<Rightarrow> bool" where
  "is_number x =
     (case x of
        PBool b \<Rightarrow> True
      | PInt i \<Rightarrow> (case float_of_int i of Inl e \<Rightarrow> False | Inr f \<Rightarrow> True)
      | PFloat f \<Rightarrow> True
      | _ \<Rightarrow> False)"

text \<open>
  A state vector as the data model describes it: a row of at least fourteen elements
  whose identifier (element 0) is a string and whose speed (9), vertical rate (11) and
  geometric altitude (13) are numbers.  The heading (10) may be anything, null included.
\<close>

definition valid_vector :: "pyval \<Rightarrow> bool" where
  "valid_vector v =
     (case v of
        PList xs \<Rightarrow>
          14 \<le> length xs \<and> (case xs ! 0 of PStr ident \<Rightarrow> True | _ \<Rightarrow> False) \<and>
          is_number (xs ! 9) \<and> is_number (xs ! 11) \<and> is_number (xs ! 13)
      | _ \<Rightarrow> False)"

definition example_env :: environment where
  "example_env =
     \<lparr>local_time = (\<lambda>t. case t of PInt n \<Rightarrow> Inr ''2018-11-05 10:00:00 AM'' | _ \<Rightarrow> Inl TypeError),
      repr_of = (\<lambda>v. ''?''),
      str_upper = (\<lambda>s. s),
      image_path = (\<lambda>name. ''images/'' @ name),
      aircrafts = [\<lparr>icao24 = ''a0b1c2'', manufacturer = ''Boeing'', model = ''737-800''\<rparr>],
      run_as_main = True\<rparr>"

text \<open>A row of seventeen elements, as the service sends it.\<close>

definition example_vector :: "string \<Rightarrow> pyval \<Rightarrow> pyval \<Rightarrow> pyval \<Rightarrow> pyval \<Rightarrow> pyval" where
  "example_vector ident speed track vert alt =
     PList [PStr ident, PStr ''UAL12'', PStr ''United States'', PInt 1541440000,
            PInt 1541440000, PInt (- 117), PInt 33, PInt 900, PBool False,
            speed, track, vert, PNone, alt, PStr ''1200'', PBool False, PInt 0]"

definition example_payload :: pyval where
  "example_payload =
     PDict [(''time'', PInt 1541440000),
            (''states'', PList [example_vector ''a0b1c2'' (PInt 100) (PInt 90) (PInt 5) (PInt 1000)])]"

definition null_payload :: pyval where
  "null_payload = PDict [(''time'', PInt 1541440000), (''states'', PNone)]"

definition example_props :: "string \<rightharpoonup> pyval" where
  "example_props =
     [''service_url'' \<mapsto> PStr ''https://opensky-network.org/api/states/all'',
      ''request_delta'' \<mapsto> PInt 10,
      ''background_img'' \<mapsto> PStr ''bg.png'']"

definition example_record :: flight_record where
  "example_record =
     \<lparr>key = PStr ''c0ffee'', date_time = ''Vectors retrieved on 2018-11-05 09:00:00 AM'',
      caption = ''Aircraft is Manufactured by UNIDENTIFIED with Model No: UNKNOWN '',
      summary = '''', img = ''images/bg.png''\<rparr>"

text \<open>A sensor that has not fetched yet, with one record in its cache.\<close>

definition example_state :: sensor_state where
  "example_state =
     \<lparr>props = example_props, settings_file = example_props,
      buffer = Some [example_record], requests_sent = 0\<rparr>"

text \<open>The same sensor after a fetch at second 100; at second 105 its cool-down of ten seconds is half over.\<close>

definition cooling_state :: sensor_state where
  "cooling_state =
     \<lparr>props = example_props(''last_used'' \<mapsto> PInt 100),
      settings_file = example_props(''last_used'' \<mapsto> PInt 100),
      buffer = Some [example_record], requests_sent = 1\<rparr>"

text \<open>What \<open>_create_content\<close> makes of \<open>example_payload\<close>.\<close>

definition example_flight :: flight_record where
  "example_flight =
     \<lparr>key = PStr ''a0b1c2'',
      date_time = ''Vectors retrieved on 2018-11-05 10:00:00 AM'',
      caption = ''Aircraft is Manufactured by BOEING with Model No: 737-800 '',
      summary = ''It'' @ [CHR 0x27] @ ''s cruising towards 90 degrees, (East) at 3281.00 ft. '' @
                ''altitude with speed of 223.70 mi/hr. It'' @ [CHR 0x27] @
                ''s currently CLIMBING at the rate of 16.41 ft/s'',
      img = ''images/bg.png''\<rparr>"

text \<open>The sensor after it has fetched \<open>example_payload\<close> at second 100.\<close>

definition fetched_state :: sensor_state where
  "fetched_state =
     \<lparr>props = example_props(''last_used'' \<mapsto> PInt 100),
      settings_file = example_props(''last_used'' \<mapsto> PInt 100),
      buffer = Some [example_flight], requests_sent = 1\<rparr>"

section \<open>Evaluation rules\<close>

lemmas float_eval =
  float_literal_def float_of_int_def round_ratio_def round_dyadic_def ilog2_ratio_def
  round_half_even_def bit_length.simps exact_int_def signed_def cmp_int_def Let_def

lemmas track_eval =
  get_trackdir_def TRACK_LIST_def track_step_def try_bind_def int_of_str_def digit_of_def
  int_minus_def compare_int_def caught_def

lemmas format_eval =
  summary_text_def py_str_def str_int_def digits.simps digit_char_def fixed2_def upper_def
  upper_char_def

section \<open>The compass direction\<close>

lemma track_step_total:
  assumes "int_of_str (fst item) = Inr d" and "float_of_int d = Inr a"
  shows "(\<exists>t'. track_step f t item = Inr t') \<or> track_step f t item = Inl TypeError"
  using assms
  by (cases f) (auto simp add: track_step_def try_bind_def int_minus_def compare_int_def Let_def)

lemma track_loop_total:
  assumes "\<forall>item \<in> set items. \<exists>d a. int_of_str (fst item) = Inr d \<and> float_of_int d = Inr a"
  shows "(\<exists>t'. track_loop f items t = Inr t') \<or> track_loop f items t = Inl TypeError"
  using assms
proof (induction items arbitrary: t)
  case Nil
  then show ?case by simp
next
  case (Cons item items)
  then obtain d a where "int_of_str (fst item) = Inr d" and "float_of_int d = Inr a"
    by auto
  from track_step_total [OF this, of f t] show ?case
  proof
    assume "\<exists>t'. track_step f t item = Inr t'"
    then obtain t' where "track_step f t item = Inr t'" ..
    with Cons.IH [of t'] Cons.prems show ?thesis by simp
  next
    assume "track_step f t item = Inl TypeError"
    then show ?thesis by simp
  qed
qed

lemma TRACK_LIST_keys:
  "\<forall>item \<in> set TRACK_LIST. \<exists>d a. int_of_str (fst item) = Inr d \<and> float_of_int d = Inr a"
  by (simp add: TRACK_LIST_def int_of_str_def digit_of_def float_eval)

text \<open>With the global bound, \<open>get_trackdir\<close> raises nothing, whatever it is given.\<close>

lemma get_trackdir_total: "\<exists>dir. get_trackdir (Some p) (Obj x) = Inr dir"
  using track_loop_total [OF TRACK_LIST_keys, of x "[]"]
  by (auto simp add: get_trackdir_def caught_def)

text \<open>
  With the global \<^verbatim>\<open>sensor\<close> bound, headings 0 and 90 map to North and East, for the
  \<^verbatim>\<open>int\<close> and for the \<^verbatim>\<open>float\<close> of that value; \<^verbatim>\<open>None\<close> and the object of the
  literal \<^verbatim>\<open>"null"\<close> itself give \<^verbatim>\<open>None\<close>, whether the global is bound or not.
  While the global is unbound, a heading other than \<^verbatim>\<open>None\<close> ends in
  \<^verbatim>\<open>NameError\<close>.
\<close>

lemma get_trackdir_headings:
  "get_trackdir (Some p) (Obj (PInt 0)) = Inr (PStr ''North'') \<and>
   get_trackdir (Some p) (Obj (PInt 90)) = Inr (PStr ''East'') \<and>
   get_trackdir (Some p) (Obj (PFloat (float_literal 0 1))) = Inr (PStr ''North'') \<and>
   get_trackdir (Some p) (Obj (PFloat (float_literal 90 1))) = Inr (PStr ''East'') \<and>
   get_trackdir sensor (Obj PNone) = Inr PNone \<and>
   get_trackdir sensor NullLiteral = Inr PNone"
proof -
  have n0: "get_trackdir (Some p) (Obj (PInt 0)) = Inr (PStr ''North'')"
    by (simp add: track_eval float_eval)
  have n90: "get_trackdir (Some p) (Obj (PInt 90)) = Inr (PStr ''East'')"
    by (simp add: track_eval float_eval)
  have f0: "get_trackdir (Some p) (Obj (PFloat (float_literal 0 1))) = Inr (PStr ''North'')"
    by (simp add: track_eval float_eval)
  have f90: "get_trackdir (Some p) (Obj (PFloat (float_literal 90 1))) = Inr (PStr ''East'')"
    by (simp add: track_eval float_eval)
  have none: "get_trackdir sensor (Obj PNone) = Inr PNone"
    by (simp add: get_trackdir_def)
  have lit: "get_trackdir sensor NullLiteral = Inr PNone"
    by (simp add: get_trackdir_def)
  from n0 n90 f0 f90 none lit show ?thesis by blast
qed

lemma get_trackdir_unbound: "x \<noteq> PNone \<Longrightarrow> get_trackdir None (Obj x) = Inl NameError"
  by (simp add: get_trackdir_def)

text \<open>
  Claim C6 asks \<open>get_trackdir\<close> to return null when its input is the sentinel
  "no data" marker.  The source tests \<^verbatim>\<open>f_track is "null"\<close>, the identity of the
  object, where the sibling test on the state list in \<open>_create_content\<close> compares with
  \<^verbatim>\<open>==\<close>.  A sentinel that arrives as a value, such as the string \<^verbatim>\<open>"null"\<close>
  decoded from the payload (the only caller passes element 10 of a decoded vector), is
  not the literal's object: the loop subtracts it from an \<^verbatim>\<open>int\<close>, the
  \<^verbatim>\<open>TypeError\<close> is caught, and the result is the empty list instead of
  \<^verbatim>\<open>None\<close>.
\<close>

theorem get_trackdir_sentinel_value:
  "get_trackdir (Some example_props) (Obj (PStr ''null'')) = Inr (PList []) \<and>
   get_trackdir (Some example_props) (Obj (PStr ''null'')) \<noteq> Inr PNone"
  by (simp add: track_eval)

section \<open>The aircraft type\<close>

lemma scan_codes_total:
  assumes "map_of ft ''icao24'' = Some ident"
  shows "\<exists>r. scan_codes cs ft found = Inr r"
  using assms by (induction cs arbitrary: found) auto

lemma type_loop_total:
  assumes "map_of ft ''icao24'' = Some ident"
    and "0 < n \<or> (map_of f_type ''Manufacturer'' \<noteq> None \<and> map_of f_type ''Model'' \<noteq> None)"
  shows "\<exists>res. type_loop n cs ft found f_type = Inr res \<and>
           map_of res ''Manufacturer'' \<noteq> None \<and> map_of res ''Model'' \<noteq> None"
  using assms(2)
proof (induction n arbitrary: found f_type)
  case 0
  then show ?case by simp
next
  case (Suc n)
  obtain r where r: "scan_codes cs ft found = Inr r"
    using scan_codes_total [OF assms(1)] by blast
  have "map_of (AList.update ''Model'' (snd r) (AList.update ''Manufacturer'' (fst r) f_type))
          ''Manufacturer'' \<noteq> None \<and>
        map_of (AList.update ''Model'' (snd r) (AList.update ''Manufacturer'' (fst r) f_type))
          ''Model'' \<noteq> None"
    by (simp add: update_conv')
  from Suc.IH [of "AList.update ''Model'' (snd r) (AList.update ''Manufacturer'' (fst r) f_type)" r]
    this r
  show ?case by simp
qed

lemma get_typeofaircraft_total:
  assumes "map_of ft ''icao24'' = Some ident"
  shows "\<exists>res m d. get_typeofaircraft cs ft = Inr res \<and>
           dict_get res ''Manufacturer'' = Inr m \<and> dict_get res ''Model'' = Inr d"
proof -
  from assms have "0 < length ft" by (cases ft) auto
  from type_loop_total [OF assms, of "length ft" "[]" cs "([], [])"] this
  show ?thesis
    by (auto simp add: get_typeofaircraft_def dict_get_def)
qed

text \<open>
  On a table with at least one entry the lookup does what the spec says: the first
  matching entry, or the default pair when none matches.
\<close>

lemma scan_codes_find:
  assumes "cs \<noteq> []" and "map_of ft ''icao24'' = Some ident"
  shows "scan_codes cs ft found =
           Inr (case find (\<lambda>c. py_eq (PStr (icao24 c)) ident) cs of
                  None \<Rightarrow> (''Unidentified'', ''Unknown'')
                | Some c \<Rightarrow> (manufacturer c, model c))"
  using assms(1)
proof (induction cs arbitrary: found)
  case Nil
  then show ?case by simp
next
  case (Cons c cs)
  show ?case
  proof (cases "cs = []")
    case True
    with assms(2) show ?thesis by simp
  next
    case False
    with Cons.IH [of "(''Unidentified'', ''Unknown'')"] assms(2) show ?thesis by simp
  qed
qed

lemma type_loop_settled:
  assumes "\<And>found. scan_codes cs ft found = Inr (a, b)"
  shows "type_loop n cs ft found [(''Manufacturer'', a), (''Model'', b)]
           = Inr [(''Manufacturer'', a), (''Model'', b)]"
  by (induction n arbitrary: found) (simp_all add: assms)

lemma get_typeofaircraft_nonempty:
  assumes "cs \<noteq> []" and "map_of ft ''icao24'' = Some ident"
  shows "get_typeofaircraft cs ft =
           Inr (case find (\<lambda>c. py_eq (PStr (icao24 c)) ident) cs of
                  None \<Rightarrow> [(''Manufacturer'', ''Unidentified''), (''Model'', ''Unknown'')]
                | Some c \<Rightarrow> [(''Manufacturer'', manufacturer c), (''Model'', model c)])"
proof -
  define r where "r = (case find (\<lambda>c. py_eq (PStr (icao24 c)) ident) cs of
                  None \<Rightarrow> (''Unidentified'', ''Unknown'')
                | Some c \<Rightarrow> (manufacturer c, model c))"
  have scan: "scan_codes cs ft found = Inr (fst r, snd r)" for found
    using scan_codes_find [OF assms, of found] by (simp add: r_def)
  from assms(2) obtain n where n: "length ft = Suc n"
    by (cases ft) auto
  have "get_typeofaircraft cs ft = Inr [(''Manufacturer'', fst r), (''Model'', snd r)]"
    using type_loop_settled [of cs ft "fst r" "snd r" n "(fst r, snd r)"] scan
    by (simp add: get_typeofaircraft_def n)
  then show ?thesis
    by (simp add: r_def split: option.splits)
qed

text \<open>
  Claim C8 asks for the pair Unidentified/Unknown whenever no entry of the table
  matches.  The default is assigned inside the loop over the table, at an entry that
  does not match; with an empty table the loop body never runs and both fields keep
  their initial empty strings.
\<close>

theorem get_typeofaircraft_empty_table:
  "get_typeofaircraft [] [(''icao24'', PStr ''a0b1c2'')]
     = Inr [(''Manufacturer'', ''''), (''Model'', '''')]"
  by (simp add: get_typeofaircraft_def)

section \<open>The transformation\<close>

lemma float_of_bool:
  "\<exists>a. float_of_int 0 = Inr a" "\<exists>a. float_of_int 1 = Inr a"
  by (simp_all add: float_eval)

lemma is_number_times: "is_number x \<Longrightarrow> \<exists>f. times_float x c = Inr f"
  using float_of_bool
  by (cases x) (auto simp add: is_number_def times_float_def try_bind_def split: sum.splits)

lemma is_number_compare: "is_number x \<Longrightarrow> \<exists>c. compare_int x i = Inr c"
  by (cases x) (auto simp add: is_number_def compare_int_def)

text \<open>What a round of the loop that returns has read and computed.\<close>

lemma vector_record_Inr:
  assumes "vector_record env sensor stamp fa v = Inr (fa', r)"
  shows "\<exists>speed track vert alt dir alt_ft spd_mph rate_ft c.
           getitem_index v 0 = Inr (key r) \<and> getitem_index v 9 = Inr speed \<and>
           getitem_index v 10 = Inr track \<and> getitem_index v 11 = Inr vert \<and>
           getitem_index v 13 = Inr alt \<and> compare_int vert 0 = Inr c \<and>
           get_trackdir sensor (Obj track) = Inr dir \<and>
           times_float alt CONV_ALT = Inr alt_ft \<and>
           times_float speed CONV_SPD = Inr spd_mph \<and>
           times_float vert CONV_ALT = Inr rate_ft \<and>
           summary r = summary_text env track dir alt_ft spd_mph
                         (if c = Greater then ''CLIMBING'' else ''DESCENDING'') rate_ft"
  using assms unfolding vector_record_def try_bind_def Let_def
  by (auto split: sum.splits split del: if_split)

text \<open>A round of the loop on a valid vector returns.\<close>

lemma vector_record_total:
  assumes "valid_vector v" and "p ''background_img'' = Some (PStr name)"
  shows "\<exists>fa' r. vector_record env (Some p) stamp fa v = Inr (fa', r)"
proof -
  from assms(1) obtain xs ident where v: "v = PList xs" and len: "14 \<le> length xs"
    and ident: "xs ! 0 = PStr ident"
    and num: "is_number (xs ! 9)" "is_number (xs ! 11)" "is_number (xs ! 13)"
    by (auto simp add: valid_vector_def split: pyval.splits)
  have idx: "getitem_index v i = Inr (xs ! i)" if "i < 14" for i
    using that len v by (simp add: getitem_index_def)
  define f_list where "f_list = [(''Call no'', xs ! 1), (''Speed'', xs ! 9), (''TrackDir'', xs ! 10),
                     (''VertRate'', xs ! 11), (''GeoAlt'', xs ! 13), (''CurrLong'', xs ! 5),
                     (''CurrLat'', xs ! 6)]"
  define fa1 where "fa1 = AList.map_entry ''Vectors'' (\<lambda>_. PDict f_list)
                   (AList.update ''icao24'' (xs ! 0) fa)"
  have "map_of fa1 ''icao24'' = Some (xs ! 0)"
    by (simp add: fa1_def map_of_map_entry update_conv')
  from get_typeofaircraft_total [OF this, of "aircrafts env"]
  obtain f_type m d where ty: "get_typeofaircraft (aircrafts env) fa1 = Inr f_type"
    "dict_get f_type ''Manufacturer'' = Inr m" "dict_get f_type ''Model'' = Inr d"
    by blast
  from is_number_compare [OF num(2), of 0] obtain c where c: "compare_int (xs ! 11) 0 = Inr c" ..
  from get_trackdir_total [of p "xs ! 10"] obtain dir
    where dir: "get_trackdir (Some p) (Obj (xs ! 10)) = Inr dir" ..
  from is_number_times [OF num(3), of CONV_ALT] obtain alt_ft
    where alt: "times_float (xs ! 13) CONV_ALT = Inr alt_ft" ..
  from is_number_times [OF num(1), of CONV_SPD] obtain spd
    where spd: "times_float (xs ! 9) CONV_SPD = Inr spd" ..
  from is_number_times [OF num(2), of CONV_ALT] obtain rate
    where rate: "times_float (xs ! 11) CONV_ALT = Inr rate" ..
  have bg: "background_image env (Some p) = Inr (image_path env name)"
    using assms(2) by (simp add: background_image_def sensor_global_def try_bind_def)
  show ?thesis
    using ty c dir alt spd rate bg
    unfolding vector_record_def fa1_def f_list_def
    by (simp add: try_bind_def idx Let_def sensor_global_def)
qed

lemma create_loop_total:
  assumes "\<forall>v \<in> set vs. valid_vector v" and "p ''background_img'' = Some (PStr name)"
  shows "\<exists>recs. create_loop env (Some p) stamp fa vs = Inr recs"
  using assms(1)
proof (induction vs arbitrary: fa)
  case Nil
  then show ?case by simp
next
  case (Cons v vs)
  then have "valid_vector v" by simp
  from vector_record_total [where p=p and name=name and env=env and stamp=stamp and fa=fa,
      OF this assms(2)]
  obtain fa' r where "vector_record env (Some p) stamp fa v = Inr (fa', r)" by blast
  moreover from Cons obtain recs where "create_loop env (Some p) stamp fa' vs = Inr recs"
    by auto
  ultimately show ?case by simp
qed

text \<open>The loop returns one record for every vector, in order.\<close>

lemma create_loop_Inr:
  assumes "create_loop env sensor stamp fa vs = Inr recs"
  shows "length recs = length vs \<and>
         (\<forall>i < length vs. \<exists>fa1 fa2. vector_record env sensor stamp fa1 (vs ! i) = Inr (fa2, recs ! i))"
  using assms
proof (induction vs arbitrary: fa recs)
  case Nil
  then show ?case by simp
next
  case (Cons v vs)
  from Cons.prems obtain fa' r rs where
    step: "vector_record env sensor stamp fa v = Inr (fa', r)"
    and rest: "create_loop env sensor stamp fa' vs = Inr rs"
    and recs: "recs = r # rs"
    by (auto split: sum.splits prod.splits)
  from Cons.IH [OF rest] step recs show ?case
    by (auto simp add: nth_Cons split: nat.splits)
qed


lemma create_content_null:
  "getitem_key fs_json ''states'' = Inr PNone \<Longrightarrow> create_content env sensor fs_json = Inr None"
  by (simp add: create_content_def try_bind_def)

lemma example_content:
  assumes "p ''background_img'' = Some (PStr ''bg.png'')"
  shows "create_content example_env (Some p) example_payload = Inr (Some [example_flight])"
  using assms
  by (simp add: create_content_def example_env_def example_payload_def example_vector_def
      example_flight_def getitem_key_def py_iter_def vector_record_def getitem_index_def
      get_typeofaircraft_def dict_get_def sensor_global_def times_float_def CONV_ALT_def
      CONV_SPD_def background_image_def track_eval float_eval format_eval)

lemma example_states:
  "getitem_key example_payload ''states''
     = Inr (PList [example_vector ''a0b1c2'' (PInt 100) (PInt 90) (PInt 5) (PInt 1000)])"
  by (simp add: getitem_key_def example_payload_def)

lemma example_background: "example_props ''background_img'' = Some (PStr ''bg.png'')"
  by (simp add: example_props_def)

text \<open>
  Claim C4.  For every payload whose \<open>states\<close> list holds N valid state vectors and
  whose \<open>time\<close> the library converts, with the global \<^verbatim>\<open>sensor\<close> bound and its
  background image configured, \<open>_create_content\<close> returns a list of exactly N records,
  and the key of the i-th record is element 0 of the i-th vector, which is not null.
\<close>

theorem create_content_records:
  assumes "getitem_key fs_json ''states'' = Inr (PList vs)"
    and "getitem_key fs_json ''time'' = Inr t"
    and "local_time env t = Inr stamp"
    and "\<forall>v \<in> set vs. valid_vector v"
    and "p ''background_img'' = Some (PStr name)"
  shows "\<exists>recs. create_content env (Some p) fs_json = Inr (Some recs) \<and>
           length recs = length vs \<and>
           (\<forall>i < length vs. getitem_index (vs ! i) 0 = Inr (key (recs ! i)) \<and>
                             key (recs ! i) \<noteq> PNone)"
proof -
  from create_loop_total [where p=p and name=name, OF assms(4,5)]
  obtain recs where loop: "create_loop env (Some p) stamp [] vs = Inr recs"
    by blast
  have content: "create_content env (Some p) fs_json = Inr (Some recs)"
    using assms(1,2,3) loop
    by (simp add: create_content_def try_bind_def py_iter_def)
  from create_loop_Inr [OF loop] have len: "length recs = length vs"
    and each: "\<forall>i < length vs. \<exists>fa1 fa2.
                 vector_record env (Some p) stamp fa1 (vs ! i) = Inr (fa2, recs ! i)"
    by simp_all
  have "getitem_index (vs ! i) 0 = Inr (key (recs ! i)) \<and> key (recs ! i) \<noteq> PNone"
    if i: "i < length vs" for i
  proof -
    from each i obtain fa1 fa2
      where "vector_record env (Some p) stamp fa1 (vs ! i) = Inr (fa2, recs ! i)"
      by blast
    from vector_record_Inr [OF this]
    have k: "getitem_index (vs ! i) 0 = Inr (key (recs ! i))"
      by blast
    from assms(4) i have "valid_vector (vs ! i)"
      by simp
    with k show ?thesis
      by (auto simp add: valid_vector_def getitem_index_def split: pyval.splits if_splits)
  qed
  with content len show ?thesis
    by blast
qed

theorem create_content_records_witness:
  "valid_vector (example_vector ''a0b1c2'' (PInt 100) (PInt 90) (PInt 5) (PInt 1000)) \<and>
   (\<exists>recs. create_content example_env (Some example_props) example_payload = Inr (Some recs) \<and>
      length recs = 1 \<and> key (recs ! 0) = PStr ''a0b1c2'')"
proof -
  have time: "getitem_key example_payload ''time'' = Inr (PInt 1541440000)"
    by (simp add: getitem_key_def example_payload_def)
  have stamp: "local_time example_env (PInt 1541440000) = Inr ''2018-11-05 10:00:00 AM''"
    by (simp add: example_env_def)
  have valid: "\<forall>v \<in> set [example_vector ''a0b1c2'' (PInt 100) (PInt 90) (PInt 5) (PInt 1000)].
      valid_vector v"
    by (simp add: valid_vector_def example_vector_def is_number_def float_eval)
  from create_content_records [where p=example_props and name="''bg.png''",
      OF example_states time stamp valid example_background] valid
  show ?thesis
    by (auto simp add: getitem_index_def example_vector_def)
qed



text \<open>
  The product of 100 and \<open>CONV_SPD\<close> is not the float nearest to 223.7 but the next
  one above it (Python prints it as \<^verbatim>\<open>223.70000000000002\<close>); the two agree in the
  two decimals that the summary shows.
\<close>

lemma speed_product_rounded:
  "\<exists>a. times_float (PInt 100) CONV_SPD = Inr a \<and>
       fcompare a (float_literal 2237 10) = Greater \<and>
       format_2f (float_literal 2237 10) = format_2f a"
  by (simp add: times_float_def try_bind_def CONV_SPD_def float_eval fixed2_def
      digits.simps digit_char_def)

section \<open>The rate-limit gate and the cache\<close>

lemma request_allowed_buffer: "request_allowed now (s\<lparr>buffer := b\<rparr>) = request_allowed now s"
  by (simp add: request_allowed_def split: option.splits pyval.splits)

lemma fetch_data_buffer:
  "fst (fetch_data env now net (s\<lparr>buffer := b\<rparr>)) = fst (fetch_data env now net s)"
  by (simp add: fetch_data_def save_settings_def write_buffer_def Let_def
      split: option.splits http_result.splits sum.splits)

lemma has_updates_buffer:
  "fst (has_updates env now net k' (s\<lparr>buffer := b\<rparr>)) = fst (has_updates env now net k' s)"
  using fetch_data_buffer [where env=env and now=now and net=net and s=s and b=b]
  by (auto simp add: has_updates_def request_allowed_buffer split: prod.splits sum.splits bool.splits)

lemma fetch_data_response:
  assumes "props s ''service_url'' = Some url"
  shows "props (snd (fetch_data env now (Response status body) s))
           = (props s)(''last_used'' \<mapsto> PInt now)"
  using assms
  by (simp add: fetch_data_def save_settings_def write_buffer_def Let_def
      split: option.splits sum.splits)

lemma fetch_data_stores:
  assumes "props s ''service_url'' = Some url"
    and "create_content env
           (if run_as_main env then Some ((props s)(''last_used'' \<mapsto> PInt now)) else None)
           fs_json = Inr content"
  shows "fst (fetch_data env now (Response 200 (Some fs_json)) s) = Inr content"
    and "buffer (snd (fetch_data env now (Response 200 (Some fs_json)) s)) = content"
  using assms
  by (auto simp add: fetch_data_def save_settings_def write_buffer_def Let_def split: if_splits)

lemma example_allowed: "request_allowed 100 example_state"
  by (simp add: request_allowed_def example_state_def example_props_def)

lemma cooling_not_allowed: "\<not> request_allowed 105 cooling_state"
  by (simp add: request_allowed_def cooling_state_def example_props_def)

lemma example_service_url:
  "props example_state ''service_url'' = Some (PStr ''https://opensky-network.org/api/states/all'')"
  by (simp add: example_state_def example_props_def)

lemma example_delta: "props example_state ''request_delta'' = Some (PInt 10)"
  by (simp add: example_state_def example_props_def)

lemma example_fetch:
  "get_all example_env 100 (Response 200 (Some example_payload)) example_state
     = (Inr (Some [example_flight]), fetched_state)"
proof -
  have "create_content example_env (Some (example_props(''last_used'' \<mapsto> PInt 100)))
          example_payload = Inr (Some [example_flight])"
    by (rule example_content) (simp add: example_props_def)
  moreover have "run_as_main example_env"
    by (simp add: example_env_def)
  ultimately show ?thesis
    using example_allowed
    by (simp add: get_all_def fetch_data_def save_settings_def write_buffer_def
        example_state_def fetched_state_def example_props_def)
qed

text \<open>
  On a result that is a list, \<open>has_updates\<close> and \<open>get_content\<close> decide as the spec
  describes: by its emptiness and its first key.
\<close>

lemma has_updates_on_list:
  assumes "request_allowed now s" and "fst (fetch_data env now net s) = Inr (Some recs)"
  shows "fst (has_updates env now net k' s)
           = Inr (if recs \<noteq> [] \<and> \<not> py_eq (key (hd recs)) k' then 1 else 0)"
  using assms
  by (cases recs)
    (auto simp add: has_updates_def first_key_differs_def split: prod.splits sum.splits)

lemma get_content_on_list:
  assumes "fst (get_all env now net s) = Inr (Some recs)"
  shows "fst (get_content env now net k' s)
           = Inr (if recs \<noteq> [] \<and> \<not> py_eq (key (hd recs)) k' then Some recs else None)"
  using assms
  by (cases recs)
    (auto simp add: get_content_def first_key_differs_def split: prod.splits sum.splits)

text \<open>
  Claim C10.  Whenever the gate disallows a fetch, \<open>has_updates\<close> returns 0 and leaves
  the state as it is, whatever the cache holds (also a non-empty list whose first key
  differs from \<open>k\<close>); its result never depends on the cache, gate open or closed.  With
  the gate closed \<open>get_all\<close> returns the cached list and \<open>get_content\<close> decides on it:
  these two are the readers of the cache.
\<close>

theorem has_updates_gate_closed:
  assumes "\<not> request_allowed now s"
  shows "has_updates env now net k' s = (Inr 0, s) \<and>
         (\<forall>b. has_updates env now net k' (s\<lparr>buffer := b\<rparr>) = (Inr 0, s\<lparr>buffer := b\<rparr>)) \<and>
         (\<forall>t b. fst (has_updates env t net k' (s\<lparr>buffer := b\<rparr>))
                  = fst (has_updates env t net k' s)) \<and>
         get_all env now net s = (Inr (buffer s), s) \<and>
         fst (get_content env now net k' s) =
           (case first_key_differs (buffer s) k' of
              Inl e \<Rightarrow> Inl e | Inr True \<Rightarrow> Inr (buffer s) | Inr False \<Rightarrow> Inr None)"
proof -
  have closed: "has_updates env now net k' s = (Inr 0, s)"
    using assms by (simp add: has_updates_def)
  have any_cache: "\<forall>b. has_updates env now net k' (s\<lparr>buffer := b\<rparr>) = (Inr 0, s\<lparr>buffer := b\<rparr>)"
    using assms by (simp add: has_updates_def request_allowed_buffer)
  have unread: "\<forall>t b. fst (has_updates env t net k' (s\<lparr>buffer := b\<rparr>))
                        = fst (has_updates env t net k' s)"
    by (simp add: has_updates_buffer)
  have all: "get_all env now net s = (Inr (buffer s), s)"
    using assms by (simp add: get_all_def read_buffer_def)
  have content: "fst (get_content env now net k' s) =
           (case first_key_differs (buffer s) k' of
              Inl e \<Rightarrow> Inl e | Inr True \<Rightarrow> Inr (buffer s) | Inr False \<Rightarrow> Inr None)"
    by (simp add: get_content_def all split: sum.splits bool.splits)
  from closed any_cache unread all content show ?thesis
    by blast
qed

theorem has_updates_gate_closed_witness:
  "\<not> request_allowed 105 cooling_state \<and>
   first_key_differs (buffer cooling_state) (PInt 1) = Inr True \<and>
   has_updates example_env 105 (Response 200 (Some example_payload)) (PInt 1) cooling_state
     = (Inr 0, cooling_state) \<and>
   get_all example_env 105 (Response 200 (Some example_payload)) cooling_state
     = (Inr (Some [example_record]), cooling_state)"
  using has_updates_gate_closed [OF cooling_not_allowed, of example_env
      "Response 200 (Some example_payload)" "PInt 1"] cooling_not_allowed
  by (simp add: cooling_state_def first_key_differs_def example_record_def)

text \<open>
  Claim C9.  In every \<open>_fetch_data\<close> call whose HTTP GET returns a response, the time
  of the call is stored under \<open>last_used\<close> and saved to the settings file, whatever the
  status code and the body are (so also for a status other than 200 and for a body
  that does not parse); when the GET raises, the settings and their file stay as they
  were.
\<close>

theorem fetch_data_last_used:
  assumes "props s ''service_url'' = Some url"
  shows "props (snd (fetch_data env now (Response status body) s))
           = (props s)(''last_used'' \<mapsto> PInt now) \<and>
         settings_file (snd (fetch_data env now (Response status body) s))
           = (props s)(''last_used'' \<mapsto> PInt now) \<and>
         props (snd (fetch_data env now (Raises e) s)) = props s \<and>
         settings_file (snd (fetch_data env now (Raises e) s)) = settings_file s"
  using assms
  by (simp add: fetch_data_def save_settings_def write_buffer_def Let_def
      split: option.splits sum.splits)

theorem fetch_data_last_used_witness:
  "props example_state ''service_url'' = Some (PStr ''https://opensky-network.org/api/states/all'') \<and>
   props (snd (fetch_data example_env 100 (Response 503 None) example_state)) ''last_used''
     = Some (PInt 100) \<and>
   settings_file (snd (fetch_data example_env 100 (Response 200 None) example_state)) ''last_used''
     = Some (PInt 100) \<and>
   props (snd (fetch_data example_env 100 (Raises Timeout) example_state)) ''last_used'' = None"
proof -
  have none: "props example_state ''last_used'' = None"
    by (simp add: example_state_def example_props_def)
  show ?thesis
    using fetch_data_last_used [OF example_service_url, of example_env 100 503 None Timeout]
      fetch_data_last_used [OF example_service_url, of example_env 100 200 None Timeout]
      example_service_url none
    by simp
qed

text \<open>
  Claim C1, as the spec states it, fails: after a 200 response whose \<open>states\<close> field is
  null, \<open>get_all\<close> yields null, but the cache that held one record now holds null.
\<close>

theorem get_all_null_states_counterexample:
  "request_allowed 100 example_state \<and>
   getitem_key null_payload ''states'' = Inr PNone \<and>
   fst (get_all example_env 100 (Response 200 (Some null_payload)) example_state) = Inr None \<and>
   buffer example_state = Some [example_record] \<and>
   buffer (snd (get_all example_env 100 (Response 200 (Some null_payload)) example_state)) = None"
  by (simp add: get_all_def request_allowed_def fetch_data_def create_content_null
      getitem_key_def null_payload_def example_state_def example_props_def
      save_settings_def write_buffer_def)

text \<open>
  Claim C1, amended.  For every cache state and every service response whose
  \<open>states\<close> field is null, \<open>get_all\<close> with the gate open yields null; a response with
  status 200 writes that null to the cache in place of the cached list, and a response
  with any other status leaves the cache unmodified.
\<close>

theorem get_all_null_states:
  assumes "request_allowed now s"
    and "props s ''service_url'' = Some url"
    and "getitem_key fs_json ''states'' = Inr PNone"
  shows "fst (get_all env now (Response status (Some fs_json)) s) = Inr None \<and>
         buffer (snd (get_all env now (Response status (Some fs_json)) s))
           = (if status = 200 then None else buffer s)"
  using assms
  by (simp add: get_all_def fetch_data_def create_content_null save_settings_def
      write_buffer_def Let_def)

theorem get_all_null_states_witness:
  "fst (get_all example_env 100 (Response 200 (Some null_payload)) example_state) = Inr None \<and>
   buffer (snd (get_all example_env 100 (Response 200 (Some null_payload)) example_state)) = None \<and>
   buffer (snd (get_all example_env 100 (Response 404 (Some null_payload)) example_state))
     = Some [example_record]"
proof -
  have st: "getitem_key null_payload ''states'' = Inr PNone"
    by (simp add: getitem_key_def null_payload_def)
  show ?thesis
    using get_all_null_states [OF example_allowed example_service_url st, of example_env 200]
      get_all_null_states [OF example_allowed example_service_url st, of example_env 404]
    by (simp add: example_state_def)
qed

text \<open>
  Claim C5, as the spec states it, fails: the fetch of the first call is answered with
  status 503, so the first call produces null; the second call, five seconds later and
  inside the window of ten, returns the record that was cached before.
\<close>

theorem get_all_within_window_counterexample:
  "request_allowed 100 example_state \<and>
   props example_state ''request_delta'' = Some (PInt 10) \<and>
   (105::int) - 100 < 10 \<and>
   fst (get_all example_env 100 (Response 503 None) example_state) = Inr None \<and>
   fst (get_all example_env 105 (Response 200 (Some example_payload))
         (snd (get_all example_env 100 (Response 503 None) example_state)))
     = Inr (Some [example_record])"
  by (simp add: get_all_def request_allowed_def fetch_data_def read_buffer_def
      save_settings_def example_state_def example_props_def)

text \<open>
  Claim C5, amended.  For every pair of consecutive \<open>get_all\<close> calls where the first
  fetches and gets a response, and the second comes before the configured
  \<open>request_delta\<close> has elapsed since that fetch, the second call issues no network
  request (the state, with its count of requests, is unchanged, whatever the network
  would answer) and returns the cached record set; when the response of the first call
  had status 200 and a body that \<open>_create_content\<close> turned into a result, that is the
  identical record set that the first call produced.
\<close>

theorem get_all_within_window:
  assumes "request_allowed t1 s"
    and "props s ''service_url'' = Some url"
    and "props s ''request_delta'' = Some (PInt delta)"
    and "get_all env t1 (Response status body) s = (r1, s1)"
    and "t2 - t1 < delta"
  shows "get_all env t2 net s1 = (Inr (buffer s1), s1) \<and>
         (\<forall>fs_json content.
            status = 200 \<and> body = Some fs_json \<and>
            create_content env
              (if run_as_main env then Some ((props s)(''last_used'' \<mapsto> PInt t1)) else None)
              fs_json = Inr content
            \<longrightarrow> r1 = Inr content \<and> get_all env t2 net s1 = (Inr content, s1))"
proof -
  have first: "fetch_data env t1 (Response status body) s = (r1, s1)"
    using assms(1,4) by (simp add: get_all_def)
  have "props s1 = (props s)(''last_used'' \<mapsto> PInt t1)"
    using fetch_data_response [OF assms(2), of env t1 status body] first by simp
  then have closed: "\<not> request_allowed t2 s1"
    using assms(3,5) by (simp add: request_allowed_def)
  then have second: "get_all env t2 net s1 = (Inr (buffer s1), s1)"
    by (simp add: get_all_def read_buffer_def)
  have stored: "r1 = Inr content \<and> buffer s1 = content"
    if "status = 200" and "body = Some fs_json"
      and "create_content env
             (if run_as_main env then Some ((props s)(''last_used'' \<mapsto> PInt t1)) else None)
             fs_json = Inr content"
    for fs_json content
    using fetch_data_stores [OF assms(2) that(3)] first that(1,2) by simp
  show ?thesis
    using second stored by simp
qed

theorem get_all_within_window_witness:
  "request_allowed 100 example_state \<and> (105::int) - 100 < 10 \<and>
   get_all example_env 100 (Response 200 (Some example_payload)) example_state
     = (Inr (Some [example_flight]), fetched_state) \<and>
   get_all example_env 105 (Raises Timeout) fetched_state
     = (Inr (Some [example_flight]), fetched_state) \<and>
   requests_sent fetched_state = 1"
proof -
  have d: "(105::int) - 100 < 10"
    by simp
  have content: "create_content example_env
      (if run_as_main example_env
       then Some ((props example_state)(''last_used'' \<mapsto> PInt 100)) else None)
      example_payload = Inr (Some [example_flight])"
  proof -
    have "run_as_main example_env"
      by (simp add: example_env_def)
    moreover have "create_content example_env
        (Some ((props example_state)(''last_used'' \<mapsto> PInt 100))) example_payload
        = Inr (Some [example_flight])"
      by (rule example_content) (simp add: example_state_def example_props_def)
    ultimately show ?thesis
      by simp
  qed
  from get_all_within_window [OF example_allowed example_service_url example_delta
      example_fetch d, of "Raises Timeout"] content example_allowed example_fetch
  show ?thesis
    by (simp add: fetched_state_def)
qed

text \<open>
  Claim C2 asks \<open>has_updates\<close> to return false on an absent result.  The code applies
  \<^verbatim>\<open>len\<close> to what \<open>_fetch_data\<close> returns: after a response with status 503 that is
  \<^verbatim>\<open>None\<close>, and the call raises \<^verbatim>\<open>TypeError\<close>.
\<close>

theorem has_updates_absent_raises:
  "has_updates example_env 100 (Response 503 None) (PInt 1) example_state
     = (Inl TypeError,
        example_state\<lparr>requests_sent := 1,
          props := example_props(''last_used'' \<mapsto> PInt 100),
          settings_file := example_props(''last_used'' \<mapsto> PInt 100)\<rparr>)"
  by (simp add: has_updates_def request_allowed_def fetch_data_def first_key_differs_def
      example_state_def example_props_def save_settings_def)

text \<open>
  Claim C3 asks \<open>get_content\<close> to return null, and never to raise, when \<open>get_all\<close>
  returns null.  After a timeout of the request \<open>get_all\<close> returns \<^verbatim>\<open>None\<close>, and
  \<open>get_content\<close> raises \<^verbatim>\<open>TypeError\<close> on its \<^verbatim>\<open>len\<close>.
\<close>

theorem get_content_absent_raises:
  "fst (get_content example_env 100 (Raises Timeout) (PInt 1) example_state) = Inl TypeError \<and>
   fst (get_all example_env 100 (Raises Timeout) example_state) = Inr None"
  by (simp add: get_content_def get_all_def request_allowed_def fetch_data_def
      first_key_differs_def fetch_caught_def example_state_def example_props_def)

end
